theory Spec2Isabelle
  imports Main "HOL-Library.Word"
begin

section \<open>The servicer of pynumaflow/function/server.py\<close>

text \<open>
  A shallow embedding of \<^verbatim>\<open>UserDefinedFunctionServicer\<close>: its constructor, the three
  RPC methods \<^verbatim>\<open>MapFn\<close>, \<^verbatim>\<open>ReduceFn\<close>, \<^verbatim>\<open>IsReady\<close>, and the calls \<^verbatim>\<open>__serve\<close>
  makes on the gRPC library. Everything a method does besides returning a value is
  written out: an exception leaving the method is \<open>Inl\<close> of the result, the
  servicer context is passed in and returned, log records and invocations of the
  user's callback are collected in lists.
\<close>

subsection \<open>Python values\<close>

type_synonym bytes = "8 word list"

text \<open>
  An exception object, as far as the server looks at it: whether its class derives from
  \<^verbatim>\<open>Exception\<close> (what \<^verbatim>\<open>except Exception\<close> tests; \<^verbatim>\<open>KeyboardInterrupt\<close>,
  \<^verbatim>\<open>SystemExit\<close>, \<^verbatim>\<open>GeneratorExit\<close> and classes deriving from \<^verbatim>\<open>BaseException\<close>
  directly do not), and its \<^verbatim>\<open>repr\<close> (what \<^verbatim>\<open>%r\<close> prints).
\<close>

datatype py_exception = py_exception (derives_Exception: bool) (repr: string)

datatype log_level = DEBUG | INFO | WARNING | ERROR | CRITICAL

record log_record =
  level :: log_level
  message :: string
  exc_info :: bool

subsection \<open>The constants module\<close>

text \<open>
  \<^verbatim>\<open>pynumaflow._constants\<close> is not among the sources; the three constants the server
  imports from it are parameters of the model.
\<close>

record constants =
  FUNCTION_SOCK_PATH :: string
  DATUM_KEY :: string
  MAX_MESSAGE_SIZE :: int

subsection \<open>Data model\<close>

text \<open>
  Modelled from the spec: the classes \<^verbatim>\<open>Message\<close>, \<^verbatim>\<open>Messages\<close> and \<^verbatim>\<open>Datum\<close> of
  \<^verbatim>\<open>pynumaflow.function\<close> are not among the sources. An output message has a key
  (a string) and a value (bytes); \<^verbatim>\<open>Messages\<close> is an ordered collection with
  insertion order preserved, and \<^verbatim>\<open>items()\<close> is the sequence it holds; a datum has a
  value, an event time and a watermark.
\<close>

type_synonym datetime = int

record Message =
  key :: string
  "value" :: bytes

type_synonym Messages = "Message list"

definition Messages_items :: "Messages \<Rightarrow> Message list" where
  "Messages_items msgs = msgs"

record Datum =
  "value" :: bytes
  event_time :: datetime
  watermark :: datetime

text \<open>
  \<^verbatim>\<open>Messages.as_forward_all\<close> is not among the sources either. It is a parameter of the
  model, a function from an optional payload to a collection of messages; the server
  calls it with \<^verbatim>\<open>None\<close> only.
\<close>

type_synonym as_forward_all_fn = "bytes option \<Rightarrow> Messages"

text \<open>
  The wire messages of \<^verbatim>\<open>udfunction_pb2\<close> (generated code, not among the sources), with
  the fields the server reads and writes. A field that a constructor call leaves out
  has the default of its type.
\<close>

record Timestamp =
  seconds :: int
  nanos :: int

record pb2_EventTime =
  event_time :: Timestamp

record pb2_Watermark =
  watermark :: Timestamp

record pb2_Datum =
  key :: string
  "value" :: bytes
  event_time :: pb2_EventTime
  watermark :: pb2_Watermark

record pb2_DatumList =
  elements :: "pb2_Datum list"

record pb2_ReadyResponse =
  ready :: bool

definition Timestamp_default :: Timestamp where
  "Timestamp_default = \<lparr>seconds = 0, nanos = 0\<rparr>"

definition pb2_Datum_key_value :: "string \<Rightarrow> bytes \<Rightarrow> pb2_Datum" where
  \<comment> \<open>\<^verbatim>\<open>udfunction_pb2.Datum(key=k, value=v)\<close>\<close>
  "pb2_Datum_key_value k v =
     \<lparr>pb2_Datum.key = k, pb2_Datum.value = v,
      pb2_Datum.event_time = \<lparr>pb2_EventTime.event_time = Timestamp_default\<rparr>,
      pb2_Datum.watermark = \<lparr>pb2_Watermark.watermark = Timestamp_default\<rparr>\<rparr>"

subsection \<open>The call context and the servicer\<close>

datatype StatusCode = OK | UNKNOWN | UNIMPLEMENTED | INTERNAL

record NumaflowServicerContext =
  invocation_metadata :: "(string \<times> string) list"
  code :: StatusCode
  details :: string

type_synonym UDFMapCallable = "string \<Rightarrow> Datum \<Rightarrow> py_exception + Messages"

datatype coroutine = server_graceful_shutdown

record UserDefinedFunctionServicer =
  map_handler :: UDFMapCallable
  sock_path :: string
  max_message_size :: int
  cleanup_coroutines :: "coroutine list"

definition init ::
  "constants \<Rightarrow> UDFMapCallable \<Rightarrow> string option \<Rightarrow> int option \<Rightarrow> UserDefinedFunctionServicer"
where
  \<comment> \<open>\<^verbatim>\<open>__init__\<close>; an argument left out is \<open>None\<close> and takes the default.\<close>
  "init c handler sock_path_arg max_message_size_arg =
     \<lparr>map_handler = handler,
      sock_path = ''unix://'' @ (case sock_path_arg of None \<Rightarrow> FUNCTION_SOCK_PATH c | Some p \<Rightarrow> p),
      max_message_size =
        (case max_message_size_arg of None \<Rightarrow> MAX_MESSAGE_SIZE c | Some m \<Rightarrow> m),
      cleanup_coroutines = []\<rparr>"

text \<open>
  What a call of an RPC method leaves behind: the response it returns or the exception
  that leaves it (which the gRPC framework turns into a failed call), the servicer
  context afterwards, the records it logged, and the invocations of the user's callback
  it made, each with the key and the datum passed.
\<close>

record 'r rpc_outcome =
  returned :: "py_exception + 'r"
  context_after :: NumaflowServicerContext
  logged :: "log_record list"
  handler_calls :: "(string \<times> Datum) list"

subsection \<open>MapFn\<close>

text \<open>
  The loop of lines 68 to 71: every metadata entry is visited in order, and each entry
  whose name is \<^verbatim>\<open>DATUM_KEY\<close> assigns \<^verbatim>\<open>key\<close>; there is no \<^verbatim>\<open>break\<close>.
\<close>

fun MapFn_key :: "string \<Rightarrow> (string \<times> string) list \<Rightarrow> string \<Rightarrow> string" where
  "MapFn_key dk [] key' = key'"
| "MapFn_key dk ((metadata_key, metadata_value) # rest) key' =
     MapFn_key dk rest (if metadata_key = dk then metadata_value else key')"

text \<open>
  The argument \<^verbatim>\<open>Datum(value=..., event_time=..., watermark=...)\<close> of the callback.
  \<^verbatim>\<open>ToDatetime\<close> belongs to the protobuf library and is a parameter; it may raise
  (a timestamp outside the range of \<^verbatim>\<open>datetime\<close>), and the event time is converted
  before the watermark.
\<close>

definition MapFn_Datum ::
  "(Timestamp \<Rightarrow> py_exception + datetime) \<Rightarrow> pb2_Datum \<Rightarrow> py_exception + Datum"
where
  "MapFn_Datum ToDatetime request =
     (case ToDatetime (pb2_EventTime.event_time (pb2_Datum.event_time request)) of
        Inl err \<Rightarrow> Inl err
      | Inr et \<Rightarrow>
          (case ToDatetime (pb2_Watermark.watermark (pb2_Datum.watermark request)) of
             Inl err \<Rightarrow> Inl err
           | Inr wm \<Rightarrow>
               Inr \<lparr>Datum.value = pb2_Datum.value request,
                    Datum.event_time = et, Datum.watermark = wm\<rparr>))"

text \<open>Lines 88 to 92: one wire datum per message, appended in the order of \<^verbatim>\<open>items()\<close>.\<close>

fun MapFn_datums :: "Message list \<Rightarrow> pb2_Datum list \<Rightarrow> pb2_Datum list" where
  "MapFn_datums [] datums = datums"
| "MapFn_datums (msg # rest) datums =
     MapFn_datums rest (datums @ [pb2_Datum_key_value (Message.key msg) (Message.value msg)])"

definition MapFn_response :: "Messages \<Rightarrow> pb2_DatumList" where
  "MapFn_response msgs = \<lparr>elements = MapFn_datums (Messages_items msgs) []\<rparr>"

definition UDFError_record :: "py_exception \<Rightarrow> log_record" where
  \<comment> \<open>\<^verbatim>\<open>_LOGGER.critical("UDFError, dropping message on the floor: %r", err, exc_info=True)\<close>\<close>
  "UDFError_record err =
     \<lparr>level = CRITICAL,
      message = ''UDFError, dropping message on the floor: '' @ repr err,
      exc_info = True\<rparr>"

text \<open>
  The body of the \<^verbatim>\<open>try\<close> (lines 74 to 81): the arguments are evaluated, then the
  callback is invoked. The second component lists the invocations made.
\<close>

definition MapFn_try ::
  "(Timestamp \<Rightarrow> py_exception + datetime) \<Rightarrow> UDFMapCallable \<Rightarrow> string \<Rightarrow> pb2_Datum \<Rightarrow>
   (py_exception + Messages) \<times> (string \<times> Datum) list"
where
  "MapFn_try ToDatetime handler key' request =
     (case MapFn_Datum ToDatetime request of
        Inl err \<Rightarrow> (Inl err, [])
      | Inr datum \<Rightarrow> (handler key' datum, [(key', datum)]))"

definition MapFn ::
  "constants \<Rightarrow> (Timestamp \<Rightarrow> py_exception + datetime) \<Rightarrow> as_forward_all_fn \<Rightarrow>
   UserDefinedFunctionServicer \<Rightarrow> pb2_Datum \<Rightarrow> NumaflowServicerContext \<Rightarrow>
   pb2_DatumList rpc_outcome"
where
  "MapFn c ToDatetime as_forward_all self request context =
     (let key' = MapFn_key (DATUM_KEY c) (invocation_metadata context) '''';
          (tried, calls) = MapFn_try ToDatetime (map_handler self) key' request
      in case tried of
           Inr msgs \<Rightarrow>
             \<lparr>returned = Inr (MapFn_response msgs), context_after = context,
              logged = [], handler_calls = calls\<rparr>
         | Inl err \<Rightarrow>
             (if derives_Exception err
              then \<lparr>returned = Inr (MapFn_response (as_forward_all None)),
                    context_after = context, logged = [UDFError_record err],
                    handler_calls = calls\<rparr>
              else \<lparr>returned = Inl err, context_after = context, logged = [],
                    handler_calls = calls\<rparr>))"

subsection \<open>ReduceFn and IsReady\<close>

text \<open>
  The request stream of \<^verbatim>\<open>ReduceFn\<close> is the list of elements not yet taken from the
  iterator; the method returns it next to its outcome, so that taking an element
  would show.
\<close>

definition NotImplementedError :: py_exception where
  \<comment> \<open>\<^verbatim>\<open>NotImplementedError("Method not implemented!")\<close>, a subclass of \<^verbatim>\<open>RuntimeError\<close>\<close>
  "NotImplementedError = py_exception True ''NotImplementedError('Method not implemented!')''"

definition ReduceFn ::
  "UserDefinedFunctionServicer \<Rightarrow> 'a list \<Rightarrow> NumaflowServicerContext \<Rightarrow>
   pb2_DatumList rpc_outcome \<times> 'a list"
where
  "ReduceFn self request_iterator context =
     (let context1 = context\<lparr>code := UNIMPLEMENTED\<rparr>;
          context2 = context1\<lparr>details := ''Method not implemented!''\<rparr>
      in (\<lparr>returned = Inl NotImplementedError, context_after = context2,
           logged = [], handler_calls = []\<rparr>,
          request_iterator))"

definition IsReady ::
  "UserDefinedFunctionServicer \<Rightarrow> unit \<Rightarrow> NumaflowServicerContext \<Rightarrow>
   pb2_ReadyResponse rpc_outcome"
where
  "IsReady self request context =
     \<lparr>returned = Inr \<lparr>ready = True\<rparr>, context_after = context,
      logged = [], handler_calls = []\<rparr>"

subsection \<open>Starting the server\<close>

text \<open>
  \<^verbatim>\<open>__serve\<close> is a sequence of calls on the gRPC library and the logger; the model
  lists them in order, up to the wait for termination, and returns the servicer with
  the shutdown coroutine appended to its cleanup list. The servicer registered with the
  server is a new one, built from the callback alone.
\<close>

datatype server_call =
    grpc_aio_server "(string \<times> int) list"
  | add_UserDefinedFunctionServicer_to_server UserDefinedFunctionServicer
  | add_insecure_port string
  | LOGGER_info string
  | server_start
  | server_wait_for_termination
  | logging_info string
  | server_stop int

definition serve_options :: "UserDefinedFunctionServicer \<Rightarrow> (string \<times> int) list" where
  "serve_options self =
     [(''grpc.max_send_message_length'', max_message_size self),
      (''grpc.max_receive_message_length'', max_message_size self)]"

definition serve ::
  "constants \<Rightarrow> UserDefinedFunctionServicer \<Rightarrow> server_call list \<times> UserDefinedFunctionServicer"
where
  "serve c self =
     ([grpc_aio_server (serve_options self),
       add_UserDefinedFunctionServicer_to_server (init c (map_handler self) None None),
       add_insecure_port (sock_path self),
       LOGGER_info (''Server listening on: '' @ sock_path self),
       server_start,
       server_wait_for_termination],
      self\<lparr>cleanup_coroutines := cleanup_coroutines self @ [server_graceful_shutdown]\<rparr>)"

fun run_coroutine :: "coroutine \<Rightarrow> server_call list" where
  "run_coroutine server_graceful_shutdown =
     [logging_info ''Starting graceful shutdown...'', server_stop 5]"

section \<open>Properties\<close>

subsection \<open>The key loop and the response loop\<close>

lemma MapFn_key_absent:
  "dk \<notin> fst ` set md \<Longrightarrow> MapFn_key dk md k = k"
  by (induction md arbitrary: k) auto

lemma MapFn_key_last:
  "filter (\<lambda>e. fst e = dk) md \<noteq> [] \<Longrightarrow>
   MapFn_key dk md k = snd (last (filter (\<lambda>e. fst e = dk) md))"
proof (induction md arbitrary: k)
  case Nil
  then show ?case by simp
next
  case (Cons e md)
  obtain mk mv where e: "e = (mk, mv)" by (cases e)
  show ?case
  proof (cases "filter (\<lambda>e. fst e = dk) md = []")
    case True
    then have absent: "dk \<notin> fst ` set md"
      by (auto simp: filter_empty_conv)
    from True Cons.prems have "mk = dk"
      by (simp add: e split: if_splits)
    with True absent show ?thesis
      by (simp add: e MapFn_key_absent)
  next
    case False
    then show ?thesis
      using Cons.IH [OF False] by (simp add: e)
  qed
qed

lemma MapFn_key_present:
  assumes "dk \<in> fst ` set md"
  shows "(dk, MapFn_key dk md k) \<in> set md"
proof -
  let ?es = "filter (\<lambda>e. fst e = dk) md"
  from assms have ne: "?es \<noteq> []"
    by (auto simp: filter_empty_conv)
  then have "last ?es \<in> set ?es"
    by (rule last_in_set)
  then have "last ?es \<in> set md" and "fst (last ?es) = dk"
    by auto
  then have "(dk, snd (last ?es)) \<in> set md"
    by (metis prod.collapse)
  with MapFn_key_last [OF ne] show ?thesis
    by simp
qed

lemma MapFn_datums_map:
  "MapFn_datums msgs datums =
   datums @ map (\<lambda>msg. pb2_Datum_key_value (Message.key msg) (Message.value msg)) msgs"
  by (induction msgs arbitrary: datums) auto

lemma MapFn_calls:
  "handler_calls (MapFn c ToDatetime as_forward_all self request context) =
   (case MapFn_Datum ToDatetime request of
      Inl err \<Rightarrow> []
    | Inr datum \<Rightarrow> [(MapFn_key (DATUM_KEY c) (invocation_metadata context) '''', datum)])"
  by (simp add: MapFn_def MapFn_try_def Let_def split: sum.splits)

lemma MapFn_called:
  assumes "(k, d) \<in> set (handler_calls (MapFn c ToDatetime as_forward_all self request context))"
  shows "MapFn_Datum ToDatetime request = Inr d"
    and "k = MapFn_key (DATUM_KEY c) (invocation_metadata context) ''''"
  using assms by (auto simp: MapFn_calls split: sum.splits)

lemma MapFn_after_call:
  assumes "(k, d) \<in> set (handler_calls (MapFn c ToDatetime as_forward_all self request context))"
  shows "MapFn c ToDatetime as_forward_all self request context =
    (case map_handler self k d of
       Inr msgs \<Rightarrow>
         \<lparr>returned = Inr (MapFn_response msgs), context_after = context,
          logged = [], handler_calls = [(k, d)]\<rparr>
     | Inl err \<Rightarrow>
         (if derives_Exception err
          then \<lparr>returned = Inr (MapFn_response (as_forward_all None)),
                context_after = context, logged = [UDFError_record err],
                handler_calls = [(k, d)]\<rparr>
          else \<lparr>returned = Inl err, context_after = context, logged = [],
                handler_calls = [(k, d)]\<rparr>))"
  using MapFn_called [OF assms]
  by (simp add: MapFn_def MapFn_try_def Let_def split: sum.splits)

lemma MapFn_response_keys:
  "map pb2_Datum.key (elements (MapFn_response msgs)) = map Message.key (Messages_items msgs)"
  by (simp add: MapFn_response_def MapFn_datums_map pb2_Datum_key_value_def comp_def)

lemma MapFn_response_values:
  "map pb2_Datum.value (elements (MapFn_response msgs)) = map Message.value (Messages_items msgs)"
  by (simp add: MapFn_response_def MapFn_datums_map pb2_Datum_key_value_def comp_def)

subsection \<open>Failure of the callback\<close>

text \<open>
  Claim C1, as amended. For every Map call in which the callback, on the arguments it is
  invoked with, raises an exception whose class derives from \<^verbatim>\<open>Exception\<close>, \<^verbatim>\<open>MapFn\<close>
  returns a \<^verbatim>\<open>DatumList\<close> (it returns: no exception leaves the method) with one
  element for each message of \<^verbatim>\<open>Messages.as_forward_all(None)\<close>, in order and with
  that message's key and value, hence with zero elements exactly when that collection
  is empty; it logs exactly one record, at level critical, and the servicer context is
  as before.
\<close>

theorem MapFn_drops_on_Exception:
  assumes "(k, d) \<in> set (handler_calls (MapFn c ToDatetime as_forward_all self request context))"
    and "map_handler self k d = Inl err"
    and "derives_Exception err"
  shows "\<exists>datums.
      returned (MapFn c ToDatetime as_forward_all self request context) =
        Inr \<lparr>elements = datums\<rparr>
    \<and> length datums = length (Messages_items (as_forward_all None))
    \<and> map pb2_Datum.key datums = map Message.key (Messages_items (as_forward_all None))
    \<and> map pb2_Datum.value datums = map Message.value (Messages_items (as_forward_all None))
    \<and> (datums = []) = (Messages_items (as_forward_all None) = [])
    \<and> logged (MapFn c ToDatetime as_forward_all self request context) =
        [\<lparr>level = CRITICAL,
          message = ''UDFError, dropping message on the floor: '' @ repr err,
          exc_info = True\<rparr>]
    \<and> context_after (MapFn c ToDatetime as_forward_all self request context) = context"
proof -
  let ?out = "MapFn c ToDatetime as_forward_all self request context"
  let ?datums = "elements (MapFn_response (as_forward_all None))"
  have ret: "returned ?out = Inr \<lparr>elements = ?datums\<rparr>"
    using assms(2,3) by (simp add: MapFn_after_call [OF assms(1)])
  have log: "logged ?out =
        [\<lparr>level = CRITICAL,
          message = ''UDFError, dropping message on the floor: '' @ repr err,
          exc_info = True\<rparr>]"
    using assms(2,3) by (simp add: MapFn_after_call [OF assms(1)] UDFError_record_def)
  have ctx: "context_after ?out = context"
    using assms(2,3) by (simp add: MapFn_after_call [OF assms(1)])
  have keys: "map pb2_Datum.key ?datums = map Message.key (Messages_items (as_forward_all None))"
    by (rule MapFn_response_keys)
  have vals: "map pb2_Datum.value ?datums =
      map Message.value (Messages_items (as_forward_all None))"
    by (rule MapFn_response_values)
  have len: "length ?datums = length (Messages_items (as_forward_all None))"
    using keys by (metis length_map)
  have none: "(?datums = []) = (Messages_items (as_forward_all None) = [])"
    using len by (metis length_0_conv)
  show ?thesis
    by (intro exI [of _ ?datums] conjI ret len keys vals none log ctx)
qed

theorem MapFn_drops_on_Exception_witness:
  "(let c = \<lparr>FUNCTION_SOCK_PATH = ''/tmp/f.sock'', DATUM_KEY = ''x-datum-key'',
             MAX_MESSAGE_SIZE = 4194304\<rparr>;
        fwd = (\<lambda>v. [\<lparr>Message.key = ''U+005C__DROP__'', Message.value = []\<rparr>]);
        err = py_exception True ''ValueError('bad')'';
        self = init c (\<lambda>k d. Inl err) None None;
        d = \<lparr>Datum.value = [104, 105], Datum.event_time = 7, Datum.watermark = 5\<rparr>;
        context = \<lparr>invocation_metadata = [(''x-datum-key'', ''X'')], code = OK, details = []\<rparr>;
        out = MapFn c (\<lambda>t. Inr (seconds t)) fwd self
          \<lparr>pb2_Datum.key = [], pb2_Datum.value = [104, 105],
           pb2_Datum.event_time = \<lparr>pb2_EventTime.event_time = \<lparr>seconds = 7, nanos = 0\<rparr>\<rparr>,
           pb2_Datum.watermark = \<lparr>pb2_Watermark.watermark = \<lparr>seconds = 5, nanos = 0\<rparr>\<rparr>\<rparr>
          context
    in (''X'', d) \<in> set (handler_calls out)
     \<and> map_handler self ''X'' d = Inl err
     \<and> derives_Exception err
     \<and> (\<exists>datums. returned out = Inr \<lparr>elements = datums\<rparr>
          \<and> length datums = 1
          \<and> map pb2_Datum.key datums = [''U+005C__DROP__'']
          \<and> map pb2_Datum.value datums = [[]])
     \<and> logged out =
         [\<lparr>level = CRITICAL,
           message = ''UDFError, dropping message on the floor: ValueError('bad')'',
           exc_info = True\<rparr>]
     \<and> context_after out = context)"
proof -
  let ?c = "\<lparr>FUNCTION_SOCK_PATH = ''/tmp/f.sock'', DATUM_KEY = ''x-datum-key'',
             MAX_MESSAGE_SIZE = 4194304\<rparr>"
  let ?T = "\<lambda>t::Timestamp. (Inr (seconds t) :: py_exception + datetime)"
  let ?fwd = "\<lambda>v::bytes option. [\<lparr>Message.key = ''U+005C__DROP__'', Message.value = []\<rparr>]"
  let ?err = "py_exception True ''ValueError('bad')''"
  let ?self = "init ?c (\<lambda>k d. Inl ?err) None None"
  let ?request = "\<lparr>pb2_Datum.key = [], pb2_Datum.value = [104, 105],
         pb2_Datum.event_time = \<lparr>pb2_EventTime.event_time = \<lparr>seconds = 7, nanos = 0\<rparr>\<rparr>,
         pb2_Datum.watermark = \<lparr>pb2_Watermark.watermark = \<lparr>seconds = 5, nanos = 0\<rparr>\<rparr>\<rparr>"
  let ?ctx = "\<lparr>invocation_metadata = [(''x-datum-key'', ''X'')], code = OK, details = []\<rparr>"
  let ?d = "\<lparr>Datum.value = [104, 105], Datum.event_time = 7, Datum.watermark = 5\<rparr>"
  let ?out = "MapFn ?c ?T ?fwd ?self ?request ?ctx"
  have called: "(''X'', ?d) \<in> set (handler_calls ?out)"
    by (simp add: MapFn_def MapFn_try_def MapFn_Datum_def init_def)
  have raised: "map_handler ?self ''X'' ?d = Inl ?err"
    by (simp add: init_def)
  have exc: "derives_Exception ?err"
    by simp
  from MapFn_drops_on_Exception [OF called raised exc]
  obtain datums where all: "returned ?out = Inr \<lparr>elements = datums\<rparr>
    \<and> length datums = length (Messages_items (?fwd None))
    \<and> map pb2_Datum.key datums = map Message.key (Messages_items (?fwd None))
    \<and> map pb2_Datum.value datums = map Message.value (Messages_items (?fwd None))
    \<and> (datums = []) = (Messages_items (?fwd None) = [])
    \<and> logged ?out =
        [\<lparr>level = CRITICAL,
          message = ''UDFError, dropping message on the floor: '' @ repr ?err,
          exc_info = True\<rparr>]
    \<and> context_after ?out = ?ctx" ..
  from all have ret: "returned ?out = Inr \<lparr>elements = datums\<rparr>"
    by (rule conjunct1)
  from all have len1: "length datums = 1"
    by (simp add: Messages_items_def)
  from all have keys1: "map pb2_Datum.key datums = [''U+005C__DROP__'']"
    by (simp add: Messages_items_def)
  from all have vals1: "map pb2_Datum.value datums = [[]]"
    by (simp add: Messages_items_def)
  from all have log: "logged ?out =
         [\<lparr>level = CRITICAL,
           message = ''UDFError, dropping message on the floor: ValueError('bad')'',
           exc_info = True\<rparr>]"
    by simp
  from all have ctx: "context_after ?out = ?ctx"
    by simp
  have ex: "\<exists>datums. returned ?out = Inr \<lparr>elements = datums\<rparr>
          \<and> length datums = 1
          \<and> map pb2_Datum.key datums = [''U+005C__DROP__'']
          \<and> map pb2_Datum.value datums = [[]]"
    by (intro exI [of _ datums] conjI ret len1 keys1 vals1)
  show ?thesis
    unfolding Let_def by (intro conjI called raised exc ex log ctx)
qed

text \<open>
  The claim as stated, for every fault the callback raises, fails: a callback that
  raises \<^verbatim>\<open>SystemExit\<close> (not derived from \<^verbatim>\<open>Exception\<close>) is invoked, and \<^verbatim>\<open>MapFn\<close>
  returns no \<^verbatim>\<open>DatumList\<close>: the exception leaves the method, and nothing is logged.
\<close>

theorem MapFn_BaseException_not_dropped:
  "(let c = \<lparr>FUNCTION_SOCK_PATH = ''/tmp/f.sock'', DATUM_KEY = ''x-datum-key'',
             MAX_MESSAGE_SIZE = 4194304\<rparr>;
        fwd = (\<lambda>v. [\<lparr>Message.key = ''U+005C__DROP__'', Message.value = []\<rparr>]);
        err = py_exception False ''SystemExit(1)'';
        self = init c (\<lambda>k d. Inl err) None None;
        d = \<lparr>Datum.value = [104, 105], Datum.event_time = 7, Datum.watermark = 5\<rparr>;
        out = MapFn c (\<lambda>t. Inr (seconds t)) fwd self
          \<lparr>pb2_Datum.key = [], pb2_Datum.value = [104, 105],
           pb2_Datum.event_time = \<lparr>pb2_EventTime.event_time = \<lparr>seconds = 7, nanos = 0\<rparr>\<rparr>,
           pb2_Datum.watermark = \<lparr>pb2_Watermark.watermark = \<lparr>seconds = 5, nanos = 0\<rparr>\<rparr>\<rparr>
          \<lparr>invocation_metadata = [], code = OK, details = []\<rparr>
    in handler_calls out = [('''', d)]
     \<and> map_handler self '''' d = Inl err
     \<and> returned out = Inl err
     \<and> returned out \<noteq> Inr \<lparr>elements = []\<rparr>
     \<and> logged out = [])"
  by (simp add: Let_def MapFn_def MapFn_try_def MapFn_Datum_def init_def)

subsection \<open>The routing key\<close>

text \<open>
  Claim C2, as amended. For every Map call whose metadata holds two or more entries
  under \<^verbatim>\<open>DATUM_KEY\<close>, the key passed to the callback is the value of the last such
  entry in metadata order: each later entry overwrites the key of the earlier ones.
\<close>

theorem MapFn_last_key_wins:
  assumes "2 \<le> length (filter (\<lambda>e. fst e = DATUM_KEY c) (invocation_metadata context))"
    and "MapFn_Datum ToDatetime request = Inr datum"
  shows "handler_calls (MapFn c ToDatetime as_forward_all self request context) =
    [(snd (last (filter (\<lambda>e. fst e = DATUM_KEY c) (invocation_metadata context))), datum)]"
proof -
  from assms(1) have "filter (\<lambda>e. fst e = DATUM_KEY c) (invocation_metadata context) \<noteq> []"
    by auto
  then show ?thesis
    by (simp add: MapFn_calls assms(2) MapFn_key_last)
qed

theorem MapFn_last_key_wins_witness:
  "(let c = \<lparr>FUNCTION_SOCK_PATH = ''/tmp/f.sock'', DATUM_KEY = ''x-datum-key'',
             MAX_MESSAGE_SIZE = 4194304\<rparr>;
        fwd = (\<lambda>v. [\<lparr>Message.key = ''U+005C__DROP__'', Message.value = []\<rparr>]);
        md = [(''x-datum-key'', ''first''), (''user-agent'', ''grpc-go''),
              (''x-datum-key'', ''second''), (''x-datum-key'', ''third'')];
        request = \<lparr>pb2_Datum.key = [], pb2_Datum.value = [104, 105],
           pb2_Datum.event_time = \<lparr>pb2_EventTime.event_time = \<lparr>seconds = 7, nanos = 0\<rparr>\<rparr>,
           pb2_Datum.watermark = \<lparr>pb2_Watermark.watermark = \<lparr>seconds = 5, nanos = 0\<rparr>\<rparr>\<rparr>;
        d = \<lparr>Datum.value = [104, 105], Datum.event_time = 7, Datum.watermark = 5\<rparr>
    in 2 \<le> length (filter (\<lambda>e. fst e = DATUM_KEY c) md)
     \<and> MapFn_Datum (\<lambda>t. Inr (seconds t)) request = Inr d
     \<and> handler_calls
         (MapFn c (\<lambda>t. Inr (seconds t)) fwd
            (init c (\<lambda>k d. Inr [\<lparr>Message.key = k, Message.value = Datum.value d\<rparr>]) None None)
            request \<lparr>invocation_metadata = md, code = OK, details = []\<rparr>)
       = [(''third'', d)])"
proof -
  let ?c = "\<lparr>FUNCTION_SOCK_PATH = ''/tmp/f.sock'', DATUM_KEY = ''x-datum-key'',
             MAX_MESSAGE_SIZE = 4194304\<rparr>"
  let ?T = "\<lambda>t::Timestamp. (Inr (seconds t) :: py_exception + datetime)"
  let ?fwd = "\<lambda>v::bytes option. [\<lparr>Message.key = ''U+005C__DROP__'', Message.value = []\<rparr>]"
  let ?md = "[(''x-datum-key'', ''first''), (''user-agent'', ''grpc-go''),
              (''x-datum-key'', ''second''), (''x-datum-key'', ''third'')]"
  let ?ctx = "\<lparr>invocation_metadata = ?md, code = OK, details = []\<rparr>"
  let ?request = "\<lparr>pb2_Datum.key = [], pb2_Datum.value = [104, 105],
         pb2_Datum.event_time = \<lparr>pb2_EventTime.event_time = \<lparr>seconds = 7, nanos = 0\<rparr>\<rparr>,
         pb2_Datum.watermark = \<lparr>pb2_Watermark.watermark = \<lparr>seconds = 5, nanos = 0\<rparr>\<rparr>\<rparr>"
  let ?d = "\<lparr>Datum.value = [104, 105], Datum.event_time = 7, Datum.watermark = 5\<rparr>"
  have many: "2 \<le> length (filter (\<lambda>e. fst e = DATUM_KEY ?c) (invocation_metadata ?ctx))"
    by simp
  have datum: "MapFn_Datum ?T ?request = Inr ?d"
    by (simp add: MapFn_Datum_def)
  show ?thesis
    unfolding Let_def
    using many datum MapFn_last_key_wins [OF many datum] by simp
qed

text \<open>
  The claim as stated (the first entry wins) fails on two entries: the callback receives
  the value of the second one.
\<close>

theorem MapFn_first_key_overwritten:
  "(let c = \<lparr>FUNCTION_SOCK_PATH = ''/tmp/f.sock'', DATUM_KEY = ''x-datum-key'',
             MAX_MESSAGE_SIZE = 4194304\<rparr>;
        fwd = (\<lambda>v. [\<lparr>Message.key = ''U+005C__DROP__'', Message.value = []\<rparr>]);
        md = [(''x-datum-key'', ''first''), (''x-datum-key'', ''second'')];
        out = MapFn c (\<lambda>t. Inr (seconds t)) fwd
          (init c (\<lambda>k d. Inr [\<lparr>Message.key = k, Message.value = Datum.value d\<rparr>]) None None)
          \<lparr>pb2_Datum.key = [], pb2_Datum.value = [104, 105],
           pb2_Datum.event_time = \<lparr>pb2_EventTime.event_time = \<lparr>seconds = 7, nanos = 0\<rparr>\<rparr>,
           pb2_Datum.watermark = \<lparr>pb2_Watermark.watermark = \<lparr>seconds = 5, nanos = 0\<rparr>\<rparr>\<rparr>
          \<lparr>invocation_metadata = md, code = OK, details = []\<rparr>
    in snd (hd (filter (\<lambda>e. fst e = DATUM_KEY c) md)) = ''first''
     \<and> map fst (handler_calls out) = [''second'']
     \<and> map fst (handler_calls out) \<noteq> [snd (hd (filter (\<lambda>e. fst e = DATUM_KEY c) md))]
     \<and> returned out =
         Inr \<lparr>elements = [pb2_Datum_key_value ''second'' [104, 105]]\<rparr>)"
  by (simp add: Let_def MapFn_def MapFn_try_def MapFn_Datum_def init_def MapFn_response_def
      Messages_items_def)

text \<open>
  Claim C4, as amended. When the metadata holds an entry under \<^verbatim>\<open>DATUM_KEY\<close>, the
  callback is invoked once, with the value of the last such entry as its key; this is
  the entry's value when there is one entry under that name. When the metadata holds no
  entry under that name, the callback is invoked once with the empty string. The datum
  is the one built from the request.
\<close>

theorem MapFn_key_extraction:
  assumes "MapFn_Datum ToDatetime request = Inr datum"
  shows "(DATUM_KEY c \<in> fst ` set (invocation_metadata context)
         \<longrightarrow> handler_calls (MapFn c ToDatetime as_forward_all self request context) =
             [(snd (last (filter (\<lambda>e. fst e = DATUM_KEY c) (invocation_metadata context))),
               datum)])
    \<and> (\<forall>v. filter (\<lambda>e. fst e = DATUM_KEY c) (invocation_metadata context) =
               [(DATUM_KEY c, v)]
         \<longrightarrow> handler_calls (MapFn c ToDatetime as_forward_all self request context) =
             [(v, datum)])
    \<and> (DATUM_KEY c \<notin> fst ` set (invocation_metadata context)
         \<longrightarrow> handler_calls (MapFn c ToDatetime as_forward_all self request context) =
             [('''', datum)])"
proof (intro conjI allI impI)
  assume "DATUM_KEY c \<in> fst ` set (invocation_metadata context)"
  then have "filter (\<lambda>e. fst e = DATUM_KEY c) (invocation_metadata context) \<noteq> []"
    by (force simp: filter_empty_conv)
  then show "handler_calls (MapFn c ToDatetime as_forward_all self request context) =
      [(snd (last (filter (\<lambda>e. fst e = DATUM_KEY c) (invocation_metadata context))), datum)]"
    by (simp add: MapFn_calls assms MapFn_key_last)
next
  fix v
  assume one: "filter (\<lambda>e. fst e = DATUM_KEY c) (invocation_metadata context) =
      [(DATUM_KEY c, v)]"
  then have "filter (\<lambda>e. fst e = DATUM_KEY c) (invocation_metadata context) \<noteq> []"
    by simp
  then have "MapFn_key (DATUM_KEY c) (invocation_metadata context) '''' =
      snd (last (filter (\<lambda>e. fst e = DATUM_KEY c) (invocation_metadata context)))"
    by (rule MapFn_key_last)
  with one have "MapFn_key (DATUM_KEY c) (invocation_metadata context) '''' = v"
    by simp
  then show "handler_calls (MapFn c ToDatetime as_forward_all self request context) =
      [(v, datum)]"
    by (simp add: MapFn_calls assms)
next
  assume "DATUM_KEY c \<notin> fst ` set (invocation_metadata context)"
  then show "handler_calls (MapFn c ToDatetime as_forward_all self request context) =
      [('''', datum)]"
    by (simp add: MapFn_calls assms MapFn_key_absent)
qed

theorem MapFn_key_extraction_witness:
  "(let c = \<lparr>FUNCTION_SOCK_PATH = ''/tmp/f.sock'', DATUM_KEY = ''x-datum-key'',
             MAX_MESSAGE_SIZE = 4194304\<rparr>;
        fwd = (\<lambda>v. [\<lparr>Message.key = ''U+005C__DROP__'', Message.value = []\<rparr>]);
        self = init c (\<lambda>k d. Inr [\<lparr>Message.key = k, Message.value = Datum.value d\<rparr>]) None None;
        request = \<lparr>pb2_Datum.key = [], pb2_Datum.value = [104, 105],
           pb2_Datum.event_time = \<lparr>pb2_EventTime.event_time = \<lparr>seconds = 7, nanos = 0\<rparr>\<rparr>,
           pb2_Datum.watermark = \<lparr>pb2_Watermark.watermark = \<lparr>seconds = 5, nanos = 0\<rparr>\<rparr>\<rparr>;
        d = \<lparr>Datum.value = [104, 105], Datum.event_time = 7, Datum.watermark = 5\<rparr>
    in MapFn_Datum (\<lambda>t. Inr (seconds t)) request = Inr d
     \<and> handler_calls (MapFn c (\<lambda>t. Inr (seconds t)) fwd self request
           \<lparr>invocation_metadata = [(''user-agent'', ''grpc-go''), (''x-datum-key'', ''X'')],
            code = OK, details = []\<rparr>) = [(''X'', d)]
     \<and> handler_calls (MapFn c (\<lambda>t. Inr (seconds t)) fwd self request
           \<lparr>invocation_metadata = [(''x-datum-key'', ''old''), (''user-agent'', ''grpc-go''),
                                    (''x-datum-key'', ''new'')],
            code = OK, details = []\<rparr>) = [(''new'', d)]
     \<and> handler_calls (MapFn c (\<lambda>t. Inr (seconds t)) fwd self request
           \<lparr>invocation_metadata = [(''user-agent'', ''grpc-go'')],
            code = OK, details = []\<rparr>) = [('''', d)])"
proof -
  let ?c = "\<lparr>FUNCTION_SOCK_PATH = ''/tmp/f.sock'', DATUM_KEY = ''x-datum-key'',
             MAX_MESSAGE_SIZE = 4194304\<rparr>"
  let ?T = "\<lambda>t::Timestamp. (Inr (seconds t) :: py_exception + datetime)"
  let ?fwd = "\<lambda>v::bytes option. [\<lparr>Message.key = ''U+005C__DROP__'', Message.value = []\<rparr>]"
  let ?self = "init ?c (\<lambda>k d. Inr [\<lparr>Message.key = k, Message.value = Datum.value d\<rparr>]) None None"
  let ?request = "\<lparr>pb2_Datum.key = [], pb2_Datum.value = [104, 105],
         pb2_Datum.event_time = \<lparr>pb2_EventTime.event_time = \<lparr>seconds = 7, nanos = 0\<rparr>\<rparr>,
         pb2_Datum.watermark = \<lparr>pb2_Watermark.watermark = \<lparr>seconds = 5, nanos = 0\<rparr>\<rparr>\<rparr>"
  let ?one = "\<lparr>invocation_metadata = [(''user-agent'', ''grpc-go''), (''x-datum-key'', ''X'')],
            code = OK, details = []\<rparr>"
  let ?two = "\<lparr>invocation_metadata = [(''x-datum-key'', ''old''), (''user-agent'', ''grpc-go''),
                                    (''x-datum-key'', ''new'')],
            code = OK, details = []\<rparr>"
  let ?without = "\<lparr>invocation_metadata = [(''user-agent'', ''grpc-go'')],
            code = OK, details = []\<rparr>"
  let ?d = "\<lparr>Datum.value = [104, 105], Datum.event_time = 7, Datum.watermark = 5\<rparr>"
  have datum: "MapFn_Datum ?T ?request = Inr ?d"
    by (simp add: MapFn_Datum_def)
  have single: "filter (\<lambda>e. fst e = DATUM_KEY ?c) (invocation_metadata ?one) =
      [(DATUM_KEY ?c, ''X'')]"
    by simp
  have present: "DATUM_KEY ?c \<in> fst ` set (invocation_metadata ?two)"
    by simp
  have absent: "DATUM_KEY ?c \<notin> fst ` set (invocation_metadata ?without)"
    by simp
  note thm1 = MapFn_key_extraction [OF datum, of ?c ?one ?fwd ?self]
  note thm2 = MapFn_key_extraction [OF datum, of ?c ?two ?fwd ?self]
  note thm3 = MapFn_key_extraction [OF datum, of ?c ?without ?fwd ?self]
  have keyed: "handler_calls (MapFn ?c ?T ?fwd ?self ?request ?one) = [(''X'', ?d)]"
    using thm1 [THEN conjunct2, THEN conjunct1, rule_format, OF single] .
  have lastly: "handler_calls (MapFn ?c ?T ?fwd ?self ?request ?two) = [(''new'', ?d)]"
    using thm2 [THEN conjunct1, rule_format, OF present] by simp
  have unkeyed: "handler_calls (MapFn ?c ?T ?fwd ?self ?request ?without) = [('''', ?d)]"
    using thm3 [THEN conjunct2, THEN conjunct2, rule_format, OF absent] .
  show ?thesis
    unfolding Let_def by (intro conjI datum keyed lastly unkeyed)
qed

text \<open>
  The claim as stated (the key equals the value of an entry the call carries under the
  name) fails when the call carries two entries with different values: the call below
  carries the entry with value \<^verbatim>\<open>a\<close>, and the callback receives \<^verbatim>\<open>b\<close>.
\<close>

theorem MapFn_key_not_each_entry:
  "(let c = \<lparr>FUNCTION_SOCK_PATH = ''/tmp/f.sock'', DATUM_KEY = ''x-datum-key'',
             MAX_MESSAGE_SIZE = 4194304\<rparr>;
        fwd = (\<lambda>v. [\<lparr>Message.key = ''U+005C__DROP__'', Message.value = []\<rparr>]);
        md = [(''x-datum-key'', ''a''), (''x-datum-key'', ''b'')];
        d = \<lparr>Datum.value = [104, 105], Datum.event_time = 7, Datum.watermark = 5\<rparr>;
        out = MapFn c (\<lambda>t. Inr (seconds t)) fwd
          (init c (\<lambda>k d. Inr [\<lparr>Message.key = k, Message.value = Datum.value d\<rparr>]) None None)
          \<lparr>pb2_Datum.key = [], pb2_Datum.value = [104, 105],
           pb2_Datum.event_time = \<lparr>pb2_EventTime.event_time = \<lparr>seconds = 7, nanos = 0\<rparr>\<rparr>,
           pb2_Datum.watermark = \<lparr>pb2_Watermark.watermark = \<lparr>seconds = 5, nanos = 0\<rparr>\<rparr>\<rparr>
          \<lparr>invocation_metadata = md, code = OK, details = []\<rparr>
    in (DATUM_KEY c, ''a'') \<in> set md
     \<and> handler_calls out = [(''b'', d)]
     \<and> handler_calls out \<noteq> [(''a'', d)])"
  by (simp add: Let_def MapFn_def MapFn_try_def MapFn_Datum_def init_def)

subsection \<open>The response\<close>

text \<open>
  Claim C3. For every Map call in which the callback, on the arguments it is invoked
  with, returns a sequence of messages, \<^verbatim>\<open>MapFn\<close> returns a \<^verbatim>\<open>DatumList\<close> with as many
  elements, whose keys and whose values are, in order, the keys and the values of the
  messages; nothing is logged.
\<close>

theorem MapFn_pass_through:
  assumes "(k, d) \<in> set (handler_calls (MapFn c ToDatetime as_forward_all self request context))"
    and "map_handler self k d = Inr msgs"
  shows "\<exists>datums.
      returned (MapFn c ToDatetime as_forward_all self request context) = Inr \<lparr>elements = datums\<rparr>
    \<and> length datums = length (Messages_items msgs)
    \<and> map pb2_Datum.key datums = map Message.key (Messages_items msgs)
    \<and> map pb2_Datum.value datums = map Message.value (Messages_items msgs)
    \<and> logged (MapFn c ToDatetime as_forward_all self request context) = []"
proof -
  have out: "returned (MapFn c ToDatetime as_forward_all self request context) = Inr (MapFn_response msgs)"
    and log: "logged (MapFn c ToDatetime as_forward_all self request context) = []"
    using assms(2) by (simp_all add: MapFn_after_call [OF assms(1)])
  have whole: "MapFn_response msgs = \<lparr>elements = elements (MapFn_response msgs)\<rparr>"
    by simp
  have len: "length (elements (MapFn_response msgs)) = length (Messages_items msgs)"
    using MapFn_response_keys [of msgs] by (metis length_map)
  show ?thesis
    using out log whole len MapFn_response_keys [of msgs] MapFn_response_values [of msgs]
    by metis
qed

theorem MapFn_pass_through_witness:
  "(let c = \<lparr>FUNCTION_SOCK_PATH = ''/tmp/f.sock'', DATUM_KEY = ''x-datum-key'',
             MAX_MESSAGE_SIZE = 4194304\<rparr>;
        fwd = (\<lambda>v. [\<lparr>Message.key = ''U+005C__DROP__'', Message.value = []\<rparr>]);
        msgs = [\<lparr>Message.key = ''b'', Message.value = [2]\<rparr>,
                \<lparr>Message.key = ''a'', Message.value = [1, 1]\<rparr>,
                \<lparr>Message.key = ''b'', Message.value = [2]\<rparr>];
        self = init c (\<lambda>k d. Inr msgs) None None;
        d = \<lparr>Datum.value = [104, 105], Datum.event_time = 7, Datum.watermark = 5\<rparr>;
        out = MapFn c (\<lambda>t. Inr (seconds t)) fwd self
          \<lparr>pb2_Datum.key = [], pb2_Datum.value = [104, 105],
           pb2_Datum.event_time = \<lparr>pb2_EventTime.event_time = \<lparr>seconds = 7, nanos = 0\<rparr>\<rparr>,
           pb2_Datum.watermark = \<lparr>pb2_Watermark.watermark = \<lparr>seconds = 5, nanos = 0\<rparr>\<rparr>\<rparr>
          \<lparr>invocation_metadata = [(''x-datum-key'', ''X'')], code = OK, details = []\<rparr>
    in (''X'', d) \<in> set (handler_calls out)
     \<and> map_handler self ''X'' d = Inr msgs
     \<and> (\<exists>datums. returned out = Inr \<lparr>elements = datums\<rparr>
          \<and> length datums = 3
          \<and> map pb2_Datum.key datums = [''b'', ''a'', ''b'']
          \<and> map pb2_Datum.value datums = [[2], [1, 1], [2]]))"
proof -
  let ?c = "\<lparr>FUNCTION_SOCK_PATH = ''/tmp/f.sock'', DATUM_KEY = ''x-datum-key'',
             MAX_MESSAGE_SIZE = 4194304\<rparr>"
  let ?T = "\<lambda>t::Timestamp. (Inr (seconds t) :: py_exception + datetime)"
  let ?fwd = "\<lambda>v::bytes option. [\<lparr>Message.key = ''U+005C__DROP__'', Message.value = []\<rparr>]"
  let ?msgs = "[\<lparr>Message.key = ''b'', Message.value = [2]\<rparr>,
                \<lparr>Message.key = ''a'', Message.value = [1, 1]\<rparr>,
                \<lparr>Message.key = ''b'', Message.value = [2]\<rparr>]"
  let ?self = "init ?c (\<lambda>k d. Inr ?msgs) None None"
  let ?request = "\<lparr>pb2_Datum.key = [], pb2_Datum.value = [104, 105],
         pb2_Datum.event_time = \<lparr>pb2_EventTime.event_time = \<lparr>seconds = 7, nanos = 0\<rparr>\<rparr>,
         pb2_Datum.watermark = \<lparr>pb2_Watermark.watermark = \<lparr>seconds = 5, nanos = 0\<rparr>\<rparr>\<rparr>"
  let ?ctx = "\<lparr>invocation_metadata = [(''x-datum-key'', ''X'')], code = OK, details = []\<rparr>"
  let ?d = "\<lparr>Datum.value = [104, 105], Datum.event_time = 7, Datum.watermark = 5\<rparr>"
  let ?out = "MapFn ?c ?T ?fwd ?self ?request ?ctx"
  have called: "(''X'', ?d) \<in> set (handler_calls ?out)"
    by (simp add: MapFn_def MapFn_try_def MapFn_Datum_def init_def)
  have result: "map_handler ?self ''X'' ?d = Inr ?msgs"
    by (simp add: init_def)
  from MapFn_pass_through [OF called result]
  obtain datums where all: "returned ?out = Inr \<lparr>elements = datums\<rparr>
    \<and> length datums = length (Messages_items ?msgs)
    \<and> map pb2_Datum.key datums = map Message.key (Messages_items ?msgs)
    \<and> map pb2_Datum.value datums = map Message.value (Messages_items ?msgs)
    \<and> logged ?out = []" ..
  from all have ret: "returned ?out = Inr \<lparr>elements = datums\<rparr>"
    by (rule conjunct1)
  from all have len3: "length datums = 3"
    by (simp add: Messages_items_def)
  from all have keys3: "map pb2_Datum.key datums = [''b'', ''a'', ''b'']"
    by (simp add: Messages_items_def)
  from all have vals3: "map pb2_Datum.value datums = [[2], [1, 1], [2]]"
    by (simp add: Messages_items_def)
  have ex: "\<exists>datums. returned ?out = Inr \<lparr>elements = datums\<rparr>
          \<and> length datums = 3
          \<and> map pb2_Datum.key datums = [''b'', ''a'', ''b'']
          \<and> map pb2_Datum.value datums = [[2], [1, 1], [2]]"
    by (intro exI [of _ datums] conjI ret len3 keys3 vals3)
  show ?thesis
    unfolding Let_def by (intro conjI called result ex)
qed

subsection \<open>The failure boundary\<close>

text \<open>
  Claim C9. Whenever the callback raises, the exception leaves \<^verbatim>\<open>MapFn\<close> exactly when
  its class does not derive from \<^verbatim>\<open>Exception\<close>, and then nothing is logged and no
  response is substituted; a response is returned exactly when the class derives from
  \<^verbatim>\<open>Exception\<close>. The witness is a callback that raises \<^verbatim>\<open>KeyboardInterrupt\<close>.
\<close>

theorem MapFn_contains_only_Exception:
  assumes "(k, d) \<in> set (handler_calls (MapFn c ToDatetime as_forward_all self request context))"
    and "map_handler self k d = Inl err"
  shows "(returned (MapFn c ToDatetime as_forward_all self request context) = Inl err) =
           (\<not> derives_Exception err)
    \<and> (logged (MapFn c ToDatetime as_forward_all self request context) = []) = (\<not> derives_Exception err)
    \<and> (\<exists>response. returned (MapFn c ToDatetime as_forward_all self request context) = Inr response) =
           derives_Exception err"
  using assms(2) by (simp add: MapFn_after_call [OF assms(1)])

theorem MapFn_contains_only_Exception_witness:
  "(let c = \<lparr>FUNCTION_SOCK_PATH = ''/tmp/f.sock'', DATUM_KEY = ''x-datum-key'',
             MAX_MESSAGE_SIZE = 4194304\<rparr>;
        fwd = (\<lambda>v. [\<lparr>Message.key = ''U+005C__DROP__'', Message.value = []\<rparr>]);
        err = py_exception False ''KeyboardInterrupt()'';
        self = init c (\<lambda>k d. Inl err) None None;
        d = \<lparr>Datum.value = [104, 105], Datum.event_time = 7, Datum.watermark = 5\<rparr>;
        out = MapFn c (\<lambda>t. Inr (seconds t)) fwd self
          \<lparr>pb2_Datum.key = [], pb2_Datum.value = [104, 105],
           pb2_Datum.event_time = \<lparr>pb2_EventTime.event_time = \<lparr>seconds = 7, nanos = 0\<rparr>\<rparr>,
           pb2_Datum.watermark = \<lparr>pb2_Watermark.watermark = \<lparr>seconds = 5, nanos = 0\<rparr>\<rparr>\<rparr>
          \<lparr>invocation_metadata = [(''x-datum-key'', ''X'')], code = OK, details = []\<rparr>
    in (''X'', d) \<in> set (handler_calls out)
     \<and> map_handler self ''X'' d = Inl err
     \<and> \<not> derives_Exception err
     \<and> returned out = Inl err
     \<and> logged out = [])"
proof -
  let ?c = "\<lparr>FUNCTION_SOCK_PATH = ''/tmp/f.sock'', DATUM_KEY = ''x-datum-key'',
             MAX_MESSAGE_SIZE = 4194304\<rparr>"
  let ?T = "\<lambda>t::Timestamp. (Inr (seconds t) :: py_exception + datetime)"
  let ?fwd = "\<lambda>v::bytes option. [\<lparr>Message.key = ''U+005C__DROP__'', Message.value = []\<rparr>]"
  let ?err = "py_exception False ''KeyboardInterrupt()''"
  let ?self = "init ?c (\<lambda>k d. Inl ?err) None None"
  let ?request = "\<lparr>pb2_Datum.key = [], pb2_Datum.value = [104, 105],
         pb2_Datum.event_time = \<lparr>pb2_EventTime.event_time = \<lparr>seconds = 7, nanos = 0\<rparr>\<rparr>,
         pb2_Datum.watermark = \<lparr>pb2_Watermark.watermark = \<lparr>seconds = 5, nanos = 0\<rparr>\<rparr>\<rparr>"
  let ?ctx = "\<lparr>invocation_metadata = [(''x-datum-key'', ''X'')], code = OK, details = []\<rparr>"
  let ?d = "\<lparr>Datum.value = [104, 105], Datum.event_time = 7, Datum.watermark = 5\<rparr>"
  let ?out = "MapFn ?c ?T ?fwd ?self ?request ?ctx"
  have called: "(''X'', ?d) \<in> set (handler_calls ?out)"
    by (simp add: MapFn_def MapFn_try_def MapFn_Datum_def init_def)
  have raised: "map_handler ?self ''X'' ?d = Inl ?err"
    by (simp add: init_def)
  have base: "\<not> derives_Exception ?err"
    by simp
  have ret: "returned ?out = Inl ?err"
    using MapFn_contains_only_Exception [OF called raised] by simp
  have log: "logged ?out = []"
    using MapFn_contains_only_Exception [OF called raised] by simp
  show ?thesis
    unfolding Let_def by (intro conjI called raised base ret log)
qed

subsection \<open>Determinism\<close>

text \<open>
  Claim C10. Two Map calls with the same callback, the same \<^verbatim>\<open>value\<close>, \<^verbatim>\<open>event_time\<close>
  and \<^verbatim>\<open>watermark\<close> in the request and the same metadata return the same response, log
  the same records and invoke the callback with the same arguments, whatever the key
  field of the request, the other attributes of the servicer and the rest of the
  context are. The callback is a function here, which is the claim's assumption that it
  behaves as a pure function.
\<close>

theorem MapFn_deterministic:
  assumes "map_handler self1 = map_handler self2"
    and "pb2_Datum.value request1 = pb2_Datum.value request2"
    and "pb2_Datum.event_time request1 = pb2_Datum.event_time request2"
    and "pb2_Datum.watermark request1 = pb2_Datum.watermark request2"
    and "invocation_metadata context1 = invocation_metadata context2"
  shows "returned (MapFn c ToDatetime as_forward_all self1 request1 context1) =
         returned (MapFn c ToDatetime as_forward_all self2 request2 context2)
    \<and> logged (MapFn c ToDatetime as_forward_all self1 request1 context1) =
       logged (MapFn c ToDatetime as_forward_all self2 request2 context2)
    \<and> handler_calls (MapFn c ToDatetime as_forward_all self1 request1 context1) =
       handler_calls (MapFn c ToDatetime as_forward_all self2 request2 context2)"
proof -
  have "MapFn_Datum ToDatetime request1 = MapFn_Datum ToDatetime request2"
    unfolding MapFn_Datum_def assms(2-4) by (rule refl)
  then have "MapFn_try ToDatetime (map_handler self1)
        (MapFn_key (DATUM_KEY c) (invocation_metadata context1) '''') request1 =
      MapFn_try ToDatetime (map_handler self2)
        (MapFn_key (DATUM_KEY c) (invocation_metadata context2) '''') request2"
    by (simp add: MapFn_try_def assms(1,5))
  then show ?thesis
    by (simp add: MapFn_def Let_def split: prod.splits sum.splits)
qed

theorem MapFn_deterministic_witness:
  "(let c = \<lparr>FUNCTION_SOCK_PATH = ''/tmp/f.sock'', DATUM_KEY = ''x-datum-key'',
             MAX_MESSAGE_SIZE = 4194304\<rparr>;
        fwd = (\<lambda>v. [\<lparr>Message.key = ''U+005C__DROP__'', Message.value = []\<rparr>]);
        handler = (\<lambda>k d. Inr [\<lparr>Message.key = k, Message.value = Datum.value d\<rparr>]);
        self1 = init c handler None None;
        self2 = init c handler (Some ''/tmp/g.sock'') (Some 1024);
        request1 = \<lparr>pb2_Datum.key = ''p'', pb2_Datum.value = [104, 105],
           pb2_Datum.event_time = \<lparr>pb2_EventTime.event_time = \<lparr>seconds = 7, nanos = 0\<rparr>\<rparr>,
           pb2_Datum.watermark = \<lparr>pb2_Watermark.watermark = \<lparr>seconds = 5, nanos = 0\<rparr>\<rparr>\<rparr>;
        request2 = \<lparr>pb2_Datum.key = ''q'', pb2_Datum.value = [104, 105],
           pb2_Datum.event_time = \<lparr>pb2_EventTime.event_time = \<lparr>seconds = 7, nanos = 0\<rparr>\<rparr>,
           pb2_Datum.watermark = \<lparr>pb2_Watermark.watermark = \<lparr>seconds = 5, nanos = 0\<rparr>\<rparr>\<rparr>;
        context1 = \<lparr>invocation_metadata = [(''x-datum-key'', ''X'')], code = OK, details = []\<rparr>;
        context2 = \<lparr>invocation_metadata = [(''x-datum-key'', ''X'')], code = UNKNOWN,
                    details = ''earlier''\<rparr>
    in map_handler self1 = map_handler self2
     \<and> pb2_Datum.value request1 = pb2_Datum.value request2
     \<and> pb2_Datum.event_time request1 = pb2_Datum.event_time request2
     \<and> pb2_Datum.watermark request1 = pb2_Datum.watermark request2
     \<and> invocation_metadata context1 = invocation_metadata context2
     \<and> returned (MapFn c (\<lambda>t. Inr (seconds t)) fwd self1 request1 context1) =
         returned (MapFn c (\<lambda>t. Inr (seconds t)) fwd self2 request2 context2))"
proof -
  let ?c = "\<lparr>FUNCTION_SOCK_PATH = ''/tmp/f.sock'', DATUM_KEY = ''x-datum-key'',
             MAX_MESSAGE_SIZE = 4194304\<rparr>"
  let ?T = "\<lambda>t::Timestamp. (Inr (seconds t) :: py_exception + datetime)"
  let ?fwd = "\<lambda>v::bytes option. [\<lparr>Message.key = ''U+005C__DROP__'', Message.value = []\<rparr>]"
  let ?handler = "\<lambda>k d. (Inr [\<lparr>Message.key = k, Message.value = Datum.value d\<rparr>]
                          :: py_exception + Messages)"
  let ?self1 = "init ?c ?handler None None"
  let ?self2 = "init ?c ?handler (Some ''/tmp/g.sock'') (Some 1024)"
  let ?request1 = "\<lparr>pb2_Datum.key = ''p'', pb2_Datum.value = [104, 105],
           pb2_Datum.event_time = \<lparr>pb2_EventTime.event_time = \<lparr>seconds = 7, nanos = 0\<rparr>\<rparr>,
           pb2_Datum.watermark = \<lparr>pb2_Watermark.watermark = \<lparr>seconds = 5, nanos = 0\<rparr>\<rparr>\<rparr>"
  let ?request2 = "\<lparr>pb2_Datum.key = ''q'', pb2_Datum.value = [104, 105],
           pb2_Datum.event_time = \<lparr>pb2_EventTime.event_time = \<lparr>seconds = 7, nanos = 0\<rparr>\<rparr>,
           pb2_Datum.watermark = \<lparr>pb2_Watermark.watermark = \<lparr>seconds = 5, nanos = 0\<rparr>\<rparr>\<rparr>"
  let ?ctx1 = "\<lparr>invocation_metadata = [(''x-datum-key'', ''X'')], code = OK, details = []\<rparr>"
  let ?ctx2 = "\<lparr>invocation_metadata = [(''x-datum-key'', ''X'')], code = UNKNOWN,
                    details = ''earlier''\<rparr>"
  have handler: "map_handler ?self1 = map_handler ?self2"
    by (simp add: init_def)
  have val: "pb2_Datum.value ?request1 = pb2_Datum.value ?request2"
    by simp
  have et: "pb2_Datum.event_time ?request1 = pb2_Datum.event_time ?request2"
    by simp
  have wm: "pb2_Datum.watermark ?request1 = pb2_Datum.watermark ?request2"
    by simp
  have md: "invocation_metadata ?ctx1 = invocation_metadata ?ctx2"
    by simp
  have same: "returned (MapFn ?c ?T ?fwd ?self1 ?request1 ?ctx1) =
         returned (MapFn ?c ?T ?fwd ?self2 ?request2 ?ctx2)"
    using MapFn_deterministic [OF handler val et wm md, of ?c ?T ?fwd] by (rule conjunct1)
  show ?thesis
    unfolding Let_def by (intro conjI handler val et wm md same)
qed

subsection \<open>ReduceFn\<close>

text \<open>
  Claim C5. Every call of \<^verbatim>\<open>ReduceFn\<close>, whatever the stream holds, sets the status code
  of the context to unimplemented and its details to the fixed message, ends with
  \<^verbatim>\<open>NotImplementedError\<close> leaving the method, returns no \<^verbatim>\<open>DatumList\<close>, and leaves
  every element of the stream in place.
\<close>

theorem ReduceFn_unimplemented:
  "returned (fst (ReduceFn self request_iterator context)) = Inl NotImplementedError
   \<and> (\<forall>datums. returned (fst (ReduceFn self request_iterator context)) \<noteq> Inr datums)
   \<and> code (context_after (fst (ReduceFn self request_iterator context))) = UNIMPLEMENTED
   \<and> details (context_after (fst (ReduceFn self request_iterator context))) =
       ''Method not implemented!''
   \<and> invocation_metadata (context_after (fst (ReduceFn self request_iterator context))) =
       invocation_metadata context
   \<and> snd (ReduceFn self request_iterator context) = request_iterator
   \<and> logged (fst (ReduceFn self request_iterator context)) = []
   \<and> handler_calls (fst (ReduceFn self request_iterator context)) = []"
  by (simp add: ReduceFn_def Let_def)

subsection \<open>IsReady\<close>

text \<open>
  Claim C6. Every call of \<^verbatim>\<open>IsReady\<close> returns \<^verbatim>\<open>ready = True\<close>, for every servicer,
  request and context, hence whatever calls the servicer handled before (\<^verbatim>\<open>MapFn\<close>
  assigns no attribute of the servicer); no exception leaves it, the context is as
  before and nothing is logged.
\<close>

theorem IsReady_ready:
  "IsReady self request context =
     \<lparr>returned = Inr \<lparr>ready = True\<rparr>, context_after = context,
      logged = [], handler_calls = []\<rparr>
   \<and> returned (IsReady self request context) = returned (IsReady self' request' context')
   \<and> (\<forall>err. returned (IsReady self request context) \<noteq> Inl err)"
  by (simp add: IsReady_def)

subsection \<open>Message size limits\<close>

text \<open>
  Claim C7. The first call \<^verbatim>\<open>__serve\<close> makes creates the server with two options, the
  maximal length of a message sent and of a message received, both set to the
  \<^verbatim>\<open>_max_message_size\<close> of the servicer, which is the constructor's argument, or
  \<^verbatim>\<open>MAX_MESSAGE_SIZE\<close> when the argument is left out.
\<close>

theorem serve_message_size_limits:
  "hd (fst (serve c self)) = grpc_aio_server (serve_options self)
   \<and> map fst (serve_options self) =
       [''grpc.max_send_message_length'', ''grpc.max_receive_message_length'']
   \<and> map_of (serve_options self) ''grpc.max_send_message_length'' = Some (max_message_size self)
   \<and> map_of (serve_options self) ''grpc.max_receive_message_length'' =
       Some (max_message_size self)
   \<and> max_message_size (init c handler sock_path_arg (Some m)) = m
   \<and> max_message_size (init c handler sock_path_arg None) = MAX_MESSAGE_SIZE c"
  by (simp add: serve_def serve_options_def init_def)

end
